theory Spec2Isabelle
  imports
    Complex_Main
    "HOL-Library.Multiset"
    "HOL-Library.Product_Lexorder"
    "HOL-Library.List_Lexorder"
    "HOL-Library.Char_ord"
begin

section \<open>The observation table\<close>

text \<open>
  The dashboard script \<^verbatim>\<open>testest.py\<close> is one flat sequence of calls into pandas,
  Streamlit and SciPy over a table read from an uploaded spreadsheet. The table is
  modelled as pandas holds it: named, typed columns and an ordered sequence of rows.
  A timestamp is a count of nanoseconds since the epoch (the resolution of a pandas
  \<^verbatim>\<open>Timestamp\<close>), a calendar date a count of days since the epoch. Numbers are
  reals: the means of the map and of the bar chart are taken exactly, and the
  operations of the correlation are rounded as float64 rounds them.
  \<^verbatim>\<open>NaN\<close>, \<^verbatim>\<open>None\<close> and \<^verbatim>\<open>NaT\<close> are the
  one cell \<open>Missing\<close>.
\<close>

type_synonym timestamp = int

type_synonym date = int

datatype cell = Number real | Text string | Stamp timestamp | Missing

datatype dtype = Float64 | Int64 | Boolean | Datetime64 | Object

type_synonym row = "(string \<times> cell) list"

record dataframe =
  columns :: "(string \<times> dtype) list"
  rows :: "row list"

definition col_names :: "dataframe \<Rightarrow> string list" where
  "col_names df = map fst (columns df)"

definition cell_of :: "row \<Rightarrow> string \<Rightarrow> cell" where
  "cell_of r c = (case map_of r c of Some v \<Rightarrow> v | None \<Rightarrow> Missing)"

text \<open>The column names the script refers to. \<open>Estacao\<close> is the UTF-8 spelling of
  the header with c-cedilla and a-tilde.\<close>

definition Data :: string where
  "Data = ''Data''"

definition Estacao :: string where
  "Estacao = ''Esta'' @ [CHR 0xC3, CHR 0xA7, CHR 0xC3, CHR 0xA3] @ ''o''"

definition Ano :: string where
  "Ano = ''Ano''"

datatype exn = KeyError string | ValueError | TypeError | IndexError | ReadError string

text \<open>\<^verbatim>\<open>df[c]\<close>: the cells of a column, or \<^verbatim>\<open>KeyError\<close> when the table has no
  such column.\<close>

definition column :: "dataframe \<Rightarrow> string \<Rightarrow> exn + cell list" where
  "column df c =
     (if c \<in> set (col_names df) then Inr (map (\<lambda>r. cell_of r c) (rows df))
      else Inl (KeyError c))"

fun number_of :: "cell \<Rightarrow> real option" where
  "number_of (Number v) = Some v"
| "number_of _ = None"

fun stamp_of :: "cell \<Rightarrow> timestamp option" where
  "stamp_of (Stamp t) = Some t"
| "stamp_of _ = None"

definition numbers :: "cell list \<Rightarrow> real list" where
  "numbers cs = List.map_filter number_of cs"

definition stamps :: "cell list \<Rightarrow> timestamp list" where
  "stamps cs = List.map_filter stamp_of cs"

section \<open>Data Loader (lines 17 to 33)\<close>

text \<open>
  \<^verbatim>\<open>pd.to_datetime(df['Data'], errors='coerce')\<close>: a timestamp stays, a missing cell
  stays missing, and any other cell is handed to pandas' date parser, which is not part
  of the script and is a parameter here; what it cannot read becomes \<^verbatim>\<open>NaT\<close>.
\<close>

fun to_datetime :: "(cell \<Rightarrow> timestamp option) \<Rightarrow> cell \<Rightarrow> cell" where
  "to_datetime parse (Stamp t) = Stamp t"
| "to_datetime parse Missing = Missing"
| "to_datetime parse c = (case parse c of Some t \<Rightarrow> Stamp t | None \<Rightarrow> Missing)"

definition assign_Data :: "(cell \<Rightarrow> timestamp option) \<Rightarrow> dataframe \<Rightarrow> dataframe" where
  "assign_Data parse df =
     \<lparr>columns = map (\<lambda>(n, t). if n = Data then (n, Datetime64) else (n, t)) (columns df),
      rows = map (map (\<lambda>(n, v). if n = Data then (n, to_datetime parse v) else (n, v)))
               (rows df)\<rparr>"

definition ns_per_day :: int where
  "ns_per_day = 86400000000000"

text \<open>\<^verbatim>\<open>Timestamp.date()\<close> and \<^verbatim>\<open>pd.to_datetime(date)\<close> (midnight of the day).\<close>

definition date_of :: "timestamp \<Rightarrow> date" where
  "date_of t = t div ns_per_day"

definition midnight :: "date \<Rightarrow> timestamp" where
  "midnight d = d * ns_per_day"

text \<open>\<^verbatim>\<open>Series.min()\<close> and \<^verbatim>\<open>Series.max()\<close> skip missing cells and give \<^verbatim>\<open>NaT\<close>
  (here \<open>None\<close>) when nothing is left; \<^verbatim>\<open>NaT.date()\<close> is \<^verbatim>\<open>NaT\<close> again.\<close>

definition series_min :: "cell list \<Rightarrow> timestamp option" where
  "series_min cs = (case stamps cs of [] \<Rightarrow> None | t # ts \<Rightarrow> Some (fold min ts t))"

definition series_max :: "cell list \<Rightarrow> timestamp option" where
  "series_max cs = (case stamps cs of [] \<Rightarrow> None | t # ts \<Rightarrow> Some (fold max ts t))"

definition date_method :: "timestamp option \<Rightarrow> date option" where
  "date_method t = map_option date_of t"

definition date_bounds :: "dataframe \<Rightarrow> exn + (date option \<times> date option)" where
  "date_bounds df =
     (case column df Data of
        Inl e \<Rightarrow> Inl e
      | Inr cs \<Rightarrow> Inr (date_method (series_min cs), date_method (series_max cs)))"

section \<open>Filter Stage (lines 43 to 54)\<close>

text \<open>A comparison of a cell of the parsed date column with a timestamp is false for
  \<^verbatim>\<open>NaT\<close>.\<close>

definition date_mask :: "timestamp \<Rightarrow> timestamp \<Rightarrow> row \<Rightarrow> bool" where
  "date_mask lo hi r =
     (case cell_of r Data of Stamp t \<Rightarrow> lo \<le> t \<and> t \<le> hi | _ \<Rightarrow> False)"

definition filter_period :: "dataframe \<Rightarrow> date \<times> date \<Rightarrow> dataframe" where
  "filter_period df p =
     df\<lparr>rows := filter (date_mask (midnight (fst p)) (midnight (snd p))) (rows df)\<rparr>"

text \<open>\<^verbatim>\<open>Series.unique()\<close>: the distinct values in order of first appearance.\<close>

definition unique :: "'a list \<Rightarrow> 'a list" where
  "unique xs = rev (remdups (rev xs))"

definition estacoes :: "dataframe \<Rightarrow> date \<times> date \<Rightarrow> exn + cell list" where
  "estacoes df p =
     (case column (filter_period df p) Estacao of
        Inl e \<Rightarrow> Inl e
      | Inr cs \<Rightarrow> Inr (unique cs))"

definition isin :: "cell list \<Rightarrow> row \<Rightarrow> bool" where
  "isin sel r = (cell_of r Estacao \<in> set sel)"

definition filter_stage :: "dataframe \<Rightarrow> date \<times> date \<Rightarrow> cell list \<Rightarrow> exn + dataframe" where
  "filter_stage df p sel =
     (let df_filtrado = filter_period df p in
      if Estacao \<in> set (col_names df_filtrado)
      then Inr (df_filtrado\<lparr>rows := filter (isin sel) (rows df_filtrado)\<rparr>)
      else Inl (KeyError Estacao))"

section \<open>Map of the stations (lines 57 to 88)\<close>

text \<open>
  The view of the map is centred on \<^verbatim>\<open>df_filtrado["y"].mean()\<close> and
  \<^verbatim>\<open>df_filtrado["x"].mean()\<close>, read in this order. \<^verbatim>\<open>Series.mean()\<close> skips missing
  cells, is \<^verbatim>\<open>NaN\<close> when none is left, and raises \<^verbatim>\<open>TypeError\<close> on a column that
  holds text or mixes numbers with timestamps. Drawing the map itself is left to the presentation layer.
\<close>

definition series_mean :: "cell list \<Rightarrow> exn + cell" where
  "series_mean cs =
     (let present = filter (\<lambda>c. c \<noteq> Missing) cs; ns = numbers cs; ts = stamps cs in
      if present = [] then Inr Missing
      else if length ns = length present then Inr (Number (sum_list ns / real (length ns)))
      else if length ts = length present then Inr (Stamp (sum_list ts div int (length ts)))
      else Inl TypeError)"

definition column_mean :: "dataframe \<Rightarrow> string \<Rightarrow> exn + cell" where
  "column_mean df c = (case column df c of Inl e \<Rightarrow> Inl e | Inr cs \<Rightarrow> series_mean cs)"

record map_view =
  latitude :: cell
  longitude :: cell
  layer_data :: dataframe

definition map_stage :: "dataframe \<Rightarrow> exn + map_view" where
  "map_stage df_filtrado =
     (case column_mean df_filtrado ''y'' of
        Inl e \<Rightarrow> Inl e
      | Inr lat \<Rightarrow>
          (case column_mean df_filtrado ''x'' of
             Inl e \<Rightarrow> Inl e
           | Inr lon \<Rightarrow> Inr \<lparr>latitude = lat, longitude = lon, layer_data = df_filtrado\<rparr>))"

section \<open>Widgets\<close>

text \<open>
  The state of each Streamlit widget is an input of one evaluation of the script;
  \<open>None\<close> is a widget the user has not touched. \<^verbatim>\<open>date_input\<close> and
  \<^verbatim>\<open>multiselect\<close> then give their default; \<^verbatim>\<open>selectbox\<close> gives its first option,
  and \<^verbatim>\<open>None\<close> when it has no option. A selection is always one of the options
  offered. \<^verbatim>\<open>date_input\<close> writes its default and its bounds as calendar dates, which
  raises \<^verbatim>\<open>ValueError\<close> on \<^verbatim>\<open>NaT\<close>.
\<close>

record widgets =
  periodo_sel :: "date list option"
  estacao_sel :: "cell list option"
  parametro_sel :: "string option"
  x_axis_sel :: "string option"
  y_axis_sel :: "string option"

definition date_input :: "date option \<times> date option \<Rightarrow> date list option \<Rightarrow> exn + date list" where
  "date_input bounds st =
     (case bounds of
        (Some min_data, Some max_data) \<Rightarrow>
          Inr (case st of None \<Rightarrow> [min_data, max_data] | Some p \<Rightarrow> p)
      | _ \<Rightarrow> Inl ValueError)"

definition multiselect :: "cell list \<Rightarrow> cell list option \<Rightarrow> cell list" where
  "multiselect dflt st = (case st of None \<Rightarrow> dflt | Some sel \<Rightarrow> sel)"

definition selectbox :: "string list \<Rightarrow> string option \<Rightarrow> string option" where
  "selectbox opts st =
     (case opts of
        [] \<Rightarrow> None
      | c # _ \<Rightarrow>
          (case st of
             None \<Rightarrow> Some c
           | Some s \<Rightarrow> if s \<in> set opts then Some s else Some c))"

text \<open>\<^verbatim>\<open>periodo[0]\<close> and \<^verbatim>\<open>periodo[1]\<close>: while the user has picked only the first day
  of a range the tuple has one element, and the second read raises.\<close>

definition period_of :: "date list \<Rightarrow> exn + (date \<times> date)" where
  "period_of periodo =
     (case periodo of s # e # _ \<Rightarrow> Inr (s, e) | _ \<Rightarrow> Inl IndexError)"

section \<open>Aggregator (lines 91 to 114)\<close>

text \<open>
  \<^verbatim>\<open>select_dtypes(include=["float64", "int64"])\<close> without the year and the coordinates.
\<close>

definition numeric_columns :: "dataframe \<Rightarrow> string list" where
  "numeric_columns df =
     filter (\<lambda>c. c \<notin> set [Ano, ''x'', ''y''])
       (map fst (filter (\<lambda>(n, t). t = Float64 \<or> t = Int64) (columns df)))"

text \<open>
  \<^verbatim>\<open>groupby\<close> sorts its keys: a column of one kind by value, and in a column of
  numbers and text the numbers first. Rows whose key is missing belong to no group.
\<close>

fun cell_key :: "cell \<Rightarrow> nat \<times> real \<times> string" where
  "cell_key (Number v) = (0, v, [])"
| "cell_key (Stamp t) = (1, real_of_int t, [])"
| "cell_key (Text s) = (2, 0, s)"
| "cell_key Missing = (3, 0, [])"

definition group_keys :: "dataframe \<Rightarrow> string \<Rightarrow> cell list" where
  "group_keys df by =
     sort_key cell_key (remdups (filter (\<lambda>c. c \<noteq> Missing) (map (\<lambda>r. cell_of r by) (rows df))))"

definition group_rows :: "dataframe \<Rightarrow> string \<Rightarrow> cell \<Rightarrow> row list" where
  "group_rows df by k = filter (\<lambda>r. cell_of r by = k) (rows df)"

text \<open>The mean of a group skips the missing cells of the parameter and is \<^verbatim>\<open>NaN\<close>
  when the group has no value at all. In a column of dtype float64 or int64 every
  cell that is not missing is a number.\<close>

definition mean :: "real list \<Rightarrow> cell" where
  "mean vs = (if vs = [] then Missing else Number (sum_list vs / real (length vs)))"

definition groupby_mean :: "dataframe \<Rightarrow> string \<Rightarrow> string \<Rightarrow> (cell \<times> cell) list" where
  "groupby_mean df by param =
     map (\<lambda>k. (k, mean (numbers (map (\<lambda>r. cell_of r param) (group_rows df by k)))))
       (group_keys df by)"

definition bar_stage :: "dataframe \<Rightarrow> string option \<Rightarrow> exn + (cell \<times> cell) list option" where
  "bar_stage df_filtrado st =
     (if Ano \<in> set (col_names df_filtrado)
      then (case selectbox (numeric_columns df_filtrado) st of
              None \<Rightarrow> Inl (KeyError ''None'')
            | Some parametro_escolhido \<Rightarrow>
                Inr (Some (groupby_mean df_filtrado Ano parametro_escolhido)))
      else Inr None)"

section \<open>Correlation Stage (lines 117 to 151)\<close>

text \<open>\<^verbatim>\<open>dropna(subset=[x_axis, y_axis])\<close> keeps the rows in which both cells are
  present.\<close>

definition dropna :: "dataframe \<Rightarrow> string \<Rightarrow> string \<Rightarrow> dataframe" where
  "dropna df x_axis y_axis =
     df\<lparr>rows := filter (\<lambda>r. cell_of r x_axis \<noteq> Missing \<and> cell_of r y_axis \<noteq> Missing) (rows df)\<rparr>"

definition values_of :: "dataframe \<Rightarrow> string \<Rightarrow> real list" where
  "values_of df c = numbers (map (\<lambda>r. cell_of r c) (rows df))"


text \<open>
  \<^verbatim>\<open>scipy.stats.spearmanr\<close> and \<^verbatim>\<open>numpy.corrcoef\<close> are not part of the script;
  they are modelled step by step as they compute in float64. A float64 operation gives
  the exact result rounded to the nearest number with a significand of 53 bits, ties to
  the even significand; the exponent range is left unbounded, the quantities of the
  correlation being far from overflow and underflow.
\<close>

definition rne :: "real \<Rightarrow> int" where
  "rne y =
     (let f = \<lfloor>y\<rfloor>; d = y - of_int f in
      if d < 1 / 2 then f else if 1 / 2 < d then f + 1 else if even f then f else f + 1)"

definition fl :: "real \<Rightarrow> real" where
  "fl x =
     (if x = 0 then 0
      else (let e = \<lfloor>log 2 \<bar>x\<bar>\<rfloor> - 52 in
            sgn x * of_int (rne (\<bar>x\<bar> / 2 powr of_int e)) * 2 powr of_int e))"

text \<open>
  \<^verbatim>\<open>rankdata\<close> gives every value the average of the positions it and its ties take
  in sorted order. The coefficient is the Pearson correlation of the two rank vectors
  as \<^verbatim>\<open>numpy.corrcoef\<close> forms it. Ranks are multiples of one half and their mean is
  \<open>(n + 1) / 2\<close>, so the mean, the deviations from it, their products and the sums of
  these are exact in float64 (for tables of fewer than 200000 rows) and are written
  without rounding. \<^verbatim>\<open>numpy.cov\<close> multiplies each sum by the rounded reciprocal of
  \<open>n - 1\<close>; \<^verbatim>\<open>numpy.corrcoef\<close> takes the square roots of the diagonal, divides the
  covariance first by the standard deviation of the second vector and then by that of
  the first, and clips the quotient to the interval from -1 to 1. \<^verbatim>\<open>spearmanr\<close>
  returns \<^verbatim>\<open>NaN\<close> (here \<open>None\<close>) when one input is constant, as is a division of
  zero by zero.
\<close>

definition rank :: "real list \<Rightarrow> real \<Rightarrow> real" where
  "rank xs v =
     real (length (filter (\<lambda>u. u < v) xs)) + (real (length (filter (\<lambda>u. u = v) xs)) + 1) / 2"

definition rankdata :: "real list \<Rightarrow> real list" where
  "rankdata xs = map (rank xs) xs"

definition avg :: "real list \<Rightarrow> real" where
  "avg xs = sum_list xs / real (length xs)"

text \<open>The sum of the products of the deviations of two vectors from their means.\<close>

definition dev :: "real list \<Rightarrow> real list \<Rightarrow> real" where
  "dev xs ys = (\<Sum>(a, b)\<leftarrow>zip xs ys. (a - avg xs) * (b - avg ys))"

definition cov :: "real list \<Rightarrow> real list \<Rightarrow> real" where
  "cov xs ys = fl (dev xs ys * fl (1 / (real (length xs) - 1)))"

definition clip :: "real \<Rightarrow> real" where
  "clip v = max (- 1) (min 1 v)"

definition corrcoef :: "real list \<Rightarrow> real list \<Rightarrow> real option" where
  "corrcoef xs ys =
     (let c = cov xs ys; sx = fl (sqrt (cov xs xs)); sy = fl (sqrt (cov ys ys)) in
      if sx = 0 \<or> sy = 0 then None else Some (clip (fl (fl (c / sy) / sx))))"

definition is_constant :: "real list \<Rightarrow> bool" where
  "is_constant xs = (case xs of [] \<Rightarrow> True | x # _ \<Rightarrow> list_all (\<lambda>u. u = x) xs)"

definition spearmanr :: "real list \<Rightarrow> real list \<Rightarrow> real option" where
  "spearmanr a b =
     (if is_constant a \<or> is_constant b then None else corrcoef (rankdata a) (rankdata b))"


datatype scatter =
    InsufficientNumericColumns
  | InsufficientPairedRows
  | IdenticalAxisSelection dataframe
  | Coefficient dataframe "real option"

definition correlation_stage :: "dataframe \<Rightarrow> string \<Rightarrow> string \<Rightarrow> scatter" where
  "correlation_stage df_filtrado x_axis y_axis =
     (let df_corr = dropna df_filtrado x_axis y_axis in
      if length (rows df_corr) < 2 then InsufficientPairedRows
      else if x_axis \<noteq> y_axis
      then Coefficient df_corr (spearmanr (values_of df_corr x_axis) (values_of df_corr y_axis))
      else IdenticalAxisSelection df_corr)"

definition scatter_stage :: "dataframe \<Rightarrow> string option \<Rightarrow> string option \<Rightarrow> exn + scatter" where
  "scatter_stage df_filtrado sx sy =
     (if length (numeric_columns df_filtrado) < 2 then Inr InsufficientNumericColumns
      else (case selectbox (numeric_columns df_filtrado) sx of
              None \<Rightarrow> Inl (KeyError ''None'')
            | Some x_axis \<Rightarrow>
                (case selectbox (numeric_columns df_filtrado) sy of
                   None \<Rightarrow> Inl (KeyError ''None'')
                 | Some y_axis \<Rightarrow> Inr (correlation_stage df_filtrado x_axis y_axis))))"

section \<open>One evaluation of the script\<close>

text \<open>
  Every call that writes to the page is a message or a field of the report. An
  exception anywhere inside the \<^verbatim>\<open>try\<close> block ends the evaluation with the generic
  message of the handler at line 153; what was shown before stays shown.
\<close>

datatype message =
    Info_upload
  | Success_loaded
  | Error_missing_Data
  | Error_loading exn
  | Warning_numeric_columns
  | Warning_insufficient_data
  | Warning_same_variables

record report =
  messages :: "message list"
  preview :: "row list option"
  station_map :: "map_view option"
  bar_series :: "(cell \<times> cell) list option"
  scatter_plot :: "scatter option"

definition blank :: report where
  "blank = \<lparr>messages = [], preview = None, station_map = None, bar_series = None,
            scatter_plot = None\<rparr>"

definition say :: "message \<Rightarrow> report \<Rightarrow> report" where
  "say m r = r\<lparr>messages := messages r @ [m]\<rparr>"

fun warning_of :: "scatter \<Rightarrow> message list" where
  "warning_of InsufficientNumericColumns = [Warning_numeric_columns]"
| "warning_of InsufficientPairedRows = [Warning_insufficient_data]"
| "warning_of (IdenticalAxisSelection _) = [Warning_same_variables]"
| "warning_of (Coefficient _ _) = []"

text \<open>Lines 90 to 151: the bar chart, when the table has a year column, then the
  scatter plot and the coefficient.\<close>

definition charts_stage :: "dataframe \<Rightarrow> widgets \<Rightarrow> report \<Rightarrow> report" where
  "charts_stage df_filtrado w r =
     (case bar_stage df_filtrado (parametro_sel w) of
        Inl e \<Rightarrow> say (Error_loading e) r
      | Inr bars \<Rightarrow>
          (let r' = r\<lparr>bar_series := bars\<rparr> in
           case scatter_stage df_filtrado (x_axis_sel w) (y_axis_sel w) of
             Inl e \<Rightarrow> say (Error_loading e) r'
           | Inr sc \<Rightarrow> r'\<lparr>messages := messages r' @ warning_of sc, scatter_plot := Some sc\<rparr>))"

text \<open>Lines 24 to 151, on a table that \<^verbatim>\<open>read_excel\<close> has returned.\<close>

definition dashboard :: "(cell \<Rightarrow> timestamp option) \<Rightarrow> dataframe \<Rightarrow> widgets \<Rightarrow> report \<Rightarrow> report" where
  "dashboard parse df0 w r =
     (if Data \<notin> set (col_names df0) then say Error_missing_Data r
      else
        (let df = assign_Data parse df0 in
         case date_bounds df of
           Inl e \<Rightarrow> say (Error_loading e) r
         | Inr bounds \<Rightarrow>
         (case date_input bounds (periodo_sel w) of
           Inl e \<Rightarrow> say (Error_loading e) r
         | Inr picked \<Rightarrow>
         (case period_of picked of
           Inl e \<Rightarrow> say (Error_loading e) r
         | Inr periodo \<Rightarrow>
         (case estacoes df periodo of
           Inl e \<Rightarrow> say (Error_loading e) r
         | Inr opts \<Rightarrow>
         (case filter_stage df periodo (multiselect opts (estacao_sel w)) of
           Inl e \<Rightarrow> say (Error_loading e) r
         | Inr df_filtrado \<Rightarrow>
         (case map_stage df_filtrado of
           Inl e \<Rightarrow> say (Error_loading e) r
         | Inr view \<Rightarrow> charts_stage df_filtrado w (r\<lparr>station_map := Some view\<rparr>))))))))"

text \<open>
  The whole script. The upload is absent, or \<^verbatim>\<open>read_excel\<close> raised on it, or it
  gave a table; \<^verbatim>\<open>df.head()\<close> is the first five rows.
\<close>

definition evaluate ::
  "(cell \<Rightarrow> timestamp option) \<Rightarrow> (exn + dataframe) option \<Rightarrow> widgets \<Rightarrow> report" where
  "evaluate parse uploaded_file w =
     (case uploaded_file of
        None \<Rightarrow> say Info_upload blank
      | Some (Inl e) \<Rightarrow> say (Error_loading e) blank
      | Some (Inr df) \<Rightarrow>
          dashboard parse df w ((say Success_loaded blank)\<lparr>preview := Some (take 5 (rows df))\<rparr>))"

section \<open>Sample tables\<close>

text \<open>Small tables on which the theorems below are instantiated. Day 19722 is
  31 December 2023; 50400000000000 nanoseconds are fourteen hours.\<close>

definition obs :: "timestamp \<Rightarrow> string \<Rightarrow> real \<Rightarrow> cell \<Rightarrow> cell \<Rightarrow> row" where
  "obs t st yr ph od =
     [(Data, Stamp t), (Estacao, Text st), (''x'', Number (-46)), (''y'', Number (-23)),
      (Ano, Number yr), (''pH'', ph), (''OD'', od)]"

definition sample_columns :: "(string \<times> dtype) list" where
  "sample_columns =
     [(Data, Datetime64), (Estacao, Object), (''x'', Float64), (''y'', Float64),
      (Ano, Int64), (''pH'', Float64), (''OD'', Float64)]"

definition late_reading :: dataframe where
  "late_reading = \<lparr>columns = sample_columns,
     rows = [obs (midnight 19722 + 50400000000000) ''E1'' 2023 (Number 7) (Number 5)]\<rparr>"

definition last_day :: dataframe where
  "last_day = \<lparr>columns = sample_columns,
     rows = [obs (midnight 19722) ''E1'' 2023 (Number 7) (Number 5),
             obs (midnight 19722 + 50400000000000) ''E1'' 2023 (Number 8) (Number 6)]\<rparr>"

definition two_days :: dataframe where
  "two_days = \<lparr>columns = sample_columns,
     rows = [obs (midnight 0) ''E1'' 1970 (Number 7) (Number 5),
             obs (midnight 10) ''E2'' 1970 (Number 8) Missing]\<rparr>"

definition misnamed :: dataframe where
  "misnamed = \<lparr>columns = [(''data'', Datetime64), (Estacao, Object)],
     rows = [[(''data'', Stamp 0), (Estacao, Text ''E1'')]]\<rparr>"

definition undated :: dataframe where
  "undated = \<lparr>columns = [(Data, Object), (Estacao, Object)],
     rows = [[(Data, Text ''n/a''), (Estacao, Text ''E1'')],
             [(Data, Missing), (Estacao, Text ''E2'')]]\<rparr>"

definition no_year :: dataframe where
  "no_year = \<lparr>columns = [(Data, Datetime64), (Estacao, Object), (''x'', Float64), (''y'', Float64),
                           (''pH'', Float64), (''OD'', Float64)],
     rows = [[(Data, Stamp (midnight 0)), (Estacao, Text ''E1''), (''x'', Number (-46)),
              (''y'', Number (-23)), (''pH'', Number 7), (''OD'', Number 5)],
             [(Data, Stamp (midnight 1)), (Estacao, Text ''E2''), (''x'', Number (-46)),
              (''y'', Number (-23)), (''pH'', Number 8), (''OD'', Number 6)],
             [(Data, Stamp (midnight 2)), (Estacao, Text ''E1''), (''x'', Number (-46)),
              (''y'', Number (-23)), (''pH'', Number 9), (''OD'', Number 4)]]\<rparr>"

definition three_years :: dataframe where
  "three_years = \<lparr>columns = sample_columns,
     rows = [obs (midnight 18628) ''E1'' 2021 (Number 4) (Number 5),
             obs (midnight 18993) ''E2'' 2022 (Number 10) (Number 6),
             obs (midnight 18800) ''E1'' 2021 (Number 6) Missing]\<rparr>"

definition steady_ph :: dataframe where
  "steady_ph = \<lparr>columns = sample_columns,
     rows = [obs (midnight 0) ''E1'' 1970 (Number 7) (Number 5),
             obs (midnight 10) ''E2'' 1970 (Number 7) (Number 6)]\<rparr>"



definition no_widgets :: widgets where
  "no_widgets = \<lparr>periodo_sel = None, estacao_sel = None, parametro_sel = None,
     x_axis_sel = None, y_axis_sel = None\<rparr>"

definition pick_axes :: widgets where
  "pick_axes = \<lparr>periodo_sel = None, estacao_sel = None, parametro_sel = None,
     x_axis_sel = Some ''pH'', y_axis_sel = Some ''OD''\<rparr>"

lemmas sample_defs = obs_def sample_columns_def late_reading_def last_day_def two_days_def
  no_widgets_def pick_axes_def
  misnamed_def undated_def no_year_def three_years_def steady_ph_def
  Data_def Estacao_def Ano_def midnight_def ns_per_day_def date_of_def

lemmas stage_defs = evaluate_def dashboard_def charts_stage_def scatter_stage_def
  correlation_stage_def bar_stage_def map_stage_def column_mean_def series_mean_def
  filter_stage_def filter_period_def estacoes_def date_bounds_def date_method_def
  series_min_def series_max_def column_def col_names_def cell_of_def date_mask_def isin_def
  unique_def numbers_def stamps_def List.map_filter_def say_def blank_def
  date_input_def multiselect_def selectbox_def period_of_def numeric_columns_def
  assign_Data_def dropna_def values_of_def Let_def

section \<open>The Filter Stage\<close>

text \<open>What the two masks of lines 43 and 54 keep: the rows, in their order and
  unchanged, whose timestamp lies between midnight of the first day and midnight of
  the last day of the period and whose station is selected. A row without a
  timestamp is kept by no period.\<close>

lemma rows_filter_stage:
  "filter_stage df p sel = Inr df' \<Longrightarrow>
   rows df' = filter (\<lambda>r. date_mask (midnight (fst p)) (midnight (snd p)) r \<and> isin sel r) (rows df)
   \<and> columns df' = columns df"
  by (auto simp: filter_stage_def filter_period_def Let_def split: if_splits)

text \<open>
  Claim C1. The Filter Stage is to keep exactly the rows whose date lies in the
  closed interval of calendar dates and whose station is selected. The script compares
  the timestamp of a row with midnight of the last day of the period. Of two readings
  of station E1 on 31 December 2023, one at 00:00 and one at 14:00, with the period of
  that single day (the default, from the date of the earliest to the date of the latest
  reading) and station E1 offered and selected, the reading of 14:00 is dropped
  although its date is the last day of the period and its station is selected.
\<close>

theorem end_day_reading_dropped:
  "date_bounds last_day = Inr (Some 19722, Some 19722)
   \<and> estacoes last_day (19722, 19722) = Inr [Text ''E1'']
   \<and> date_of (midnight 19722 + 50400000000000) = 19722
   \<and> isin [Text ''E1''] (obs (midnight 19722 + 50400000000000) ''E1'' 2023 (Number 8) (Number 6))
   \<and> filter_stage last_day (19722, 19722) [Text ''E1'']
        = Inr (last_day\<lparr>rows := [obs (midnight 19722) ''E1'' 2023 (Number 7) (Number 5)]\<rparr>)
   \<and> station_map (evaluate (\<lambda>c. None) (Some (Inr last_day)) no_widgets) =
       Some \<lparr>latitude = Number (- 23), longitude = Number (- 46),
             layer_data = last_day\<lparr>rows := [obs (midnight 19722) ''E1'' 2023 (Number 7) (Number 5)]\<rparr>\<rparr>"
  by (simp add: stage_defs sample_defs)

text \<open>
  Claim C7. Filtering is idempotent: the Filter Stage applied with the same period and
  the same stations to a table it has returned gives that table again.
\<close>

theorem filter_stage_idempotent:
  "filter_stage df p sel = Inr df' \<Longrightarrow> filter_stage df' p sel = Inr df'"
  by (auto simp: filter_stage_def filter_period_def Let_def col_names_def split: if_splits)

theorem filter_stage_idempotent_witness:
  "filter_stage two_days (0, 10) [Text ''E2'']
     = Inr (two_days\<lparr>rows := [obs (midnight 10) ''E2'' 1970 (Number 8) Missing]\<rparr>)
   \<and> filter_stage (two_days\<lparr>rows := [obs (midnight 10) ''E2'' 1970 (Number 8) Missing]\<rparr>)
        (0, 10) [Text ''E2'']
     = Inr (two_days\<lparr>rows := [obs (midnight 10) ''E2'' 1970 (Number 8) Missing]\<rparr>)"
proof -
  have h: "filter_stage two_days (0, 10) [Text ''E2'']
     = Inr (two_days\<lparr>rows := [obs (midnight 10) ''E2'' 1970 (Number 8) Missing]\<rparr>)"
    by (simp add: stage_defs sample_defs)
  from filter_stage_idempotent [OF h] h show ?thesis by simp
qed

text \<open>
  Claim C8 has the stations offered for selection equal to the distinct stations of the
  loaded table, whatever the period. The script takes them from the table already
  narrowed to the period (line 46): with the period of the first day alone, the station
  of the second day is not offered.
\<close>

theorem stations_depend_on_period:
  "estacoes two_days (0, 0) = Inr [Text ''E1''] \<and>
   column two_days Estacao = Inr [Text ''E1'', Text ''E2'']"
  by (simp add: stage_defs sample_defs)

lemma set_unique: "set (unique xs) = set xs"
  by (simp add: unique_def)

lemma distinct_unique: "distinct (unique xs)"
  by (simp add: unique_def)

text \<open>
  Claim C8, amended. The stations offered, which are also the default selection, are the
  distinct stations of the table that line 43 has narrowed to the chosen period; they
  are among the stations of the loaded table.
\<close>

theorem estacoes_of_period:
  assumes "Estacao \<in> set (col_names df)"
  shows "\<exists>opts. estacoes df p = Inr opts \<and> distinct opts
     \<and> set opts = (\<lambda>r. cell_of r Estacao) ` set (rows (filter_period df p))
     \<and> set opts \<subseteq> (\<lambda>r. cell_of r Estacao) ` set (rows df)
     \<and> multiselect opts None = opts"
  using assms
  by (auto simp: estacoes_def column_def col_names_def filter_period_def set_unique
      distinct_unique multiselect_def)

theorem estacoes_of_period_witness:
  "Estacao \<in> set (col_names two_days) \<and> estacoes two_days (0, 0) = Inr [Text ''E1'']
   \<and> rows (filter_period two_days (0, 0)) = [obs (midnight 0) ''E1'' 1970 (Number 7) (Number 5)]
   \<and> set [Text ''E1''] = (\<lambda>r. cell_of r Estacao) ` set (rows (filter_period two_days (0, 0)))"
proof -
  have h: "Estacao \<in> set (col_names two_days)" by (simp add: stage_defs sample_defs)
  have e: "estacoes two_days (0, 0) = Inr [Text ''E1'']" by (simp add: stage_defs sample_defs)
  have f: "rows (filter_period two_days (0, 0)) = [obs (midnight 0) ''E1'' 1970 (Number 7) (Number 5)]"
    by (simp add: stage_defs sample_defs)
  from estacoes_of_period [OF h, of "(0, 0)"] h e f show ?thesis by auto
qed

section \<open>The Data Loader\<close>

text \<open>
  Claim C6. A table without a column named exactly \<open>Data\<close> gets the message of line 26,
  not the message of the exception handler, and nothing after the preview is computed:
  no map, no bar chart, no scatter plot. A column named \<open>data\<close> does not count.
\<close>

theorem missing_Data_column:
  assumes "Data \<notin> set (col_names df)"
  shows "evaluate parse (Some (Inr df)) w =
     \<lparr>messages = [Success_loaded, Error_missing_Data], preview = Some (take 5 (rows df)),
      station_map = None, bar_series = None, scatter_plot = None\<rparr>"
  using assms by (simp add: evaluate_def dashboard_def say_def blank_def)

theorem missing_Data_column_witness:
  "''data'' \<in> set (col_names misnamed) \<and>
   evaluate (\<lambda>c. None) (Some (Inr misnamed)) no_widgets =
     \<lparr>messages = [Success_loaded, Error_missing_Data], preview = Some (rows misnamed),
      station_map = None, bar_series = None, scatter_plot = None\<rparr>"
proof -
  have h: "Data \<notin> set (col_names misnamed)"
    by (simp add: misnamed_def col_names_def Data_def Estacao_def)
  have c: "''data'' \<in> set (col_names misnamed)" by (simp add: misnamed_def col_names_def)
  have t: "take 5 (rows misnamed) = rows misnamed" by (simp add: misnamed_def)
  from missing_Data_column [OF h, of "\<lambda>c. None" no_widgets] c t show ?thesis by simp
qed

lemma cell_of_assign:
  "cell_of (map (\<lambda>(n, v). if n = Data then (n, to_datetime parse v) else (n, v)) r) Data
   = to_datetime parse (cell_of r Data)"
  by (induction r) (auto simp: cell_of_def)

lemma col_names_assign: "col_names (assign_Data parse df) = col_names df"
  by (auto simp: col_names_def assign_Data_def split_def)

lemma column_assign_Data:
  "Data \<in> set (col_names df) \<Longrightarrow>
   column (assign_Data parse df) Data
     = Inr (map (\<lambda>r. to_datetime parse (cell_of r Data)) (rows df))"
  using cell_of_assign by (simp add: column_def col_names_assign) (simp add: assign_Data_def)

lemma stamps_all_Missing: "\<forall>c\<in>set cs. c = Missing \<Longrightarrow> stamps cs = []"
  by (induction cs) (auto simp: stamps_def List.map_filter_def)

text \<open>
  Claim C10. A table that has the column \<open>Data\<close> but no cell in it that parses as a
  date (a table without rows among them) has no earliest and no latest date; the
  evaluation ends in the exception handler with its generic message, the message about
  the missing column is not used, and no map, bar chart or scatter plot is produced.
\<close>

theorem no_valid_date_aborts:
  assumes "Data \<in> set (col_names df)"
    and "\<forall>r\<in>set (rows df). to_datetime parse (cell_of r Data) = Missing"
  shows "evaluate parse (Some (Inr df)) w =
     \<lparr>messages = [Success_loaded, Error_loading ValueError], preview = Some (take 5 (rows df)),
      station_map = None, bar_series = None, scatter_plot = None\<rparr>"
proof -
  have "stamps (map (\<lambda>r. to_datetime parse (cell_of r Data)) (rows df)) = []"
    using assms(2) by (intro stamps_all_Missing) auto
  then have "date_bounds (assign_Data parse df) = Inr (None, None)"
    using assms(1)
    by (simp add: date_bounds_def column_assign_Data series_min_def series_max_def date_method_def)
  then show ?thesis
    using assms(1) by (simp add: evaluate_def dashboard_def say_def blank_def date_input_def)
qed

theorem no_valid_date_aborts_witness:
  "evaluate (\<lambda>c. None) (Some (Inr undated)) no_widgets =
     \<lparr>messages = [Success_loaded, Error_loading ValueError], preview = Some (rows undated),
      station_map = None, bar_series = None, scatter_plot = None\<rparr>
   \<and> evaluate (\<lambda>c. None) (Some (Inr (undated\<lparr>rows := []\<rparr>))) no_widgets =
     \<lparr>messages = [Success_loaded, Error_loading ValueError], preview = Some [],
      station_map = None, bar_series = None, scatter_plot = None\<rparr>"
proof -
  have h: "Data \<in> set (col_names undated)" "Data \<in> set (col_names (undated\<lparr>rows := []\<rparr>))"
    by (simp_all add: undated_def col_names_def)
  have m: "\<forall>r\<in>set (rows undated). to_datetime (\<lambda>c. None) (cell_of r Data) = Missing"
    by (simp add: undated_def cell_of_def Data_def Estacao_def)
  have e: "\<forall>r\<in>set (rows (undated\<lparr>rows := []\<rparr>)). to_datetime (\<lambda>c. None) (cell_of r Data) = Missing"
    by simp
  have t: "take 5 (rows undated) = rows undated" by (simp add: undated_def)
  from no_valid_date_aborts [OF h(1) m, of no_widgets]
    no_valid_date_aborts [OF h(2) e, of no_widgets] t
  show ?thesis by simp
qed

section \<open>The Correlation Stage: its warnings\<close>

lemma selectbox_member: "s \<in> set opts \<Longrightarrow> selectbox opts (Some s) = Some s"
  by (cases opts) (auto simp: selectbox_def)

lemma selectbox_nonempty: "opts \<noteq> [] \<Longrightarrow> \<exists>s. selectbox opts st = Some s \<and> s \<in> set opts"
  by (cases opts; cases st) (auto simp: selectbox_def)

lemma scatter_stage_chosen:
  "2 \<le> length (numeric_columns df) \<Longrightarrow> x \<in> set (numeric_columns df) \<Longrightarrow>
   y \<in> set (numeric_columns df) \<Longrightarrow>
   scatter_stage df (Some x) (Some y) = Inr (correlation_stage df x y)"
  by (simp add: scatter_stage_def selectbox_member)

lemma scatter_stage_total: "\<exists>sc. scatter_stage df sx sy = Inr sc"
proof (cases "length (numeric_columns df) < 2")
  case True
  then show ?thesis by (simp add: scatter_stage_def)
next
  case False
  then have ne: "numeric_columns df \<noteq> []" by auto
  obtain x where x: "selectbox (numeric_columns df) sx = Some x"
    using selectbox_nonempty [OF ne] by blast
  obtain y where y: "selectbox (numeric_columns df) sy = Some y"
    using selectbox_nonempty [OF ne] by blast
  show ?thesis using False x y by (simp add: scatter_stage_def)
qed

text \<open>
  Claim C4. With X and Y chosen among the numeric columns, the stage keeps the rows in
  which both X and Y are present, and when fewer than two are left it gives the
  warning of insufficient data and no coefficient.
\<close>

theorem insufficient_paired_rows:
  assumes "2 \<le> length (numeric_columns df)"
    and "x \<in> set (numeric_columns df)" and "y \<in> set (numeric_columns df)"
    and "length (filter (\<lambda>r. cell_of r x \<noteq> Missing \<and> cell_of r y \<noteq> Missing) (rows df)) < 2"
  shows "set (rows (dropna df x y))
       = {r \<in> set (rows df). cell_of r x \<noteq> Missing \<and> cell_of r y \<noteq> Missing}
     \<and> scatter_stage df (Some x) (Some y) = Inr InsufficientPairedRows
     \<and> warning_of InsufficientPairedRows = [Warning_insufficient_data]"
  using assms by (simp add: scatter_stage_chosen) (auto simp: correlation_stage_def dropna_def)

theorem insufficient_paired_rows_witness:
  "length (filter (\<lambda>r. cell_of r ''pH'' \<noteq> Missing \<and> cell_of r ''OD'' \<noteq> Missing)
      (rows two_days)) = 1
   \<and> scatter_stage two_days (Some ''pH'') (Some ''OD'') = Inr InsufficientPairedRows"
proof -
  have n: "numeric_columns two_days = [''pH'', ''OD'']" by (simp add: stage_defs sample_defs)
  have l: "length (filter (\<lambda>r. cell_of r ''pH'' \<noteq> Missing \<and> cell_of r ''OD'' \<noteq> Missing)
      (rows two_days)) = 1"
    by (simp add: stage_defs sample_defs)
  from insufficient_paired_rows [of two_days "''pH''" "''OD''"] n l show ?thesis by simp
qed

text \<open>
  Claim C5 has the warning about identical axes for every table. The test for identical
  axes (line 146) stands inside the branch for at least two paired rows: on a table of
  one row the same column chosen twice gives the warning of insufficient data instead.
\<close>

theorem identical_axes_one_row:
  "scatter_stage late_reading (Some ''pH'') (Some ''pH'') = Inr InsufficientPairedRows
   \<and> warning_of InsufficientPairedRows \<noteq> [Warning_same_variables]"
  by (simp add: stage_defs sample_defs)

text \<open>
  Claim C5, amended. When X and Y name the same column no coefficient is computed; the
  warning about identical axes is given when at least two rows have the column present,
  and the warning of insufficient data otherwise.
\<close>

theorem identical_axes:
  assumes "2 \<le> length (numeric_columns df)" and "x \<in> set (numeric_columns df)"
  shows "scatter_stage df (Some x) (Some x) =
           Inr (if length (rows (dropna df x x)) < 2 then InsufficientPairedRows
                else IdenticalAxisSelection (dropna df x x))
     \<and> (\<forall>d c. scatter_stage df (Some x) (Some x) \<noteq> Inr (Coefficient d c))"
  using assms by (simp add: scatter_stage_chosen correlation_stage_def Let_def)

theorem identical_axes_witness:
  "scatter_stage two_days (Some ''pH'') (Some ''pH'') = Inr (IdenticalAxisSelection two_days)"
proof -
  have n: "numeric_columns two_days = [''pH'', ''OD'']" by (simp add: stage_defs sample_defs)
  have d: "dropna two_days ''pH'' ''pH'' = two_days" by (simp add: stage_defs sample_defs)
  have l: "length (rows two_days) = 2" by (simp add: sample_defs)
  from identical_axes [of two_days "''pH''"] n d l show ?thesis by simp
qed

section \<open>The Aggregator\<close>

lemma cell_key_Number_le: "cell_key (Number a) \<le> cell_key (Number b) \<longleftrightarrow> a \<le> b"
  by (auto simp: less_eq_prod_def)

lemma insort_key_Number:
  "insort_key cell_key (Number y) (map Number ys) = map Number (insort y ys)"
  by (induction ys) (auto simp: cell_key_Number_le)

lemma sort_key_Number: "sort_key cell_key (map Number ys) = map Number (sort ys)"
  by (induction ys) (auto simp: insort_key_Number)

lemma remdups_Number: "remdups (map Number ys) = map Number (remdups ys)"
  by (induction ys) auto

lemma map_of_tabulate: "k \<in> set ks \<Longrightarrow> map_of (map (\<lambda>k. (k, f k)) ks) k = Some (f k)"
  by (induction ks) auto

lemma fst_groupby_mean: "map fst (groupby_mean df by param) = group_keys df by"
  by (simp add: groupby_mean_def comp_def)

lemma set_group_keys: "set (group_keys df by) = (\<lambda>r. cell_of r by) ` set (rows df) - {Missing}"
  by (auto simp: group_keys_def)

lemma distinct_group_keys: "distinct (group_keys df by)"
  by (simp add: group_keys_def)

lemma sorted_group_keys: "sorted (map cell_key (group_keys df by))"
  by (simp add: group_keys_def)

lemma length_group_keys:
  "length (group_keys df by) = card ((\<lambda>r. cell_of r by) ` set (rows df) - {Missing})"
  using distinct_card [OF distinct_group_keys, of df "by"] by (simp add: set_group_keys)

lemma numeric_keys:
  assumes "\<forall>r\<in>set (rows df). cell_of r by = Missing \<or> (\<exists>y. cell_of r by = Number y)"
  shows "group_keys df by =
    map Number (sorted_list_of_set {y. Number y \<in> (\<lambda>r. cell_of r by) ` set (rows df)})"
proof -
  define cs where "cs = filter (\<lambda>c. c \<noteq> Missing) (map (\<lambda>r. cell_of r by) (rows df))"
  define ys where "ys = numbers cs"
  have "\<forall>c\<in>set cs. \<exists>y. c = Number y" using assms by (auto simp: cs_def)
  then have cs: "cs = map Number ys" unfolding ys_def
    by (induction cs) (auto simp: numbers_def List.map_filter_def)
  have "set ys = {y. Number y \<in> (\<lambda>r. cell_of r by) ` set (rows df)}"
  proof -
    have "Number ` set ys = set cs" using cs by simp
    then show ?thesis by (auto simp: cs_def image_iff)
  qed
  then have "sorted_list_of_set {y. Number y \<in> (\<lambda>r. cell_of r by) ` set (rows df)} = sort (remdups ys)"
    by (metis sorted_list_of_set_sort_remdups)
  moreover have "group_keys df by = map Number (sort (remdups ys))"
    unfolding group_keys_def cs_def [symmetric]
    by (simp add: cs remdups_Number sort_key_Number)
  ultimately show ?thesis by simp
qed

lemma sample_keys: "group_keys three_years Ano = [Number 2021, Number 2022]"
  by (simp add: group_keys_def sample_defs cell_of_def)

lemma sample_series:
  "groupby_mean three_years Ano ''pH'' = [(Number 2021, Number 5), (Number 2022, Number 10)]"
  by (simp add: groupby_mean_def sample_keys)
    (simp add: group_rows_def sample_defs cell_of_def mean_def numbers_def List.map_filter_def)

text \<open>
  Claim C2. The aggregated series has exactly one row for every year present in the
  filtered table and none for any other; the rows are in ascending order of the year;
  the value of a row is the arithmetic mean of the values of the parameter present in
  the rows of its year (\<^verbatim>\<open>NaN\<close> when none is present). Years 2021, 2022, 2021 with
  values 4, 10, 6 give the series (2021, 5), (2022, 10).
\<close>

theorem aggregated_series:
  "distinct (map fst (groupby_mean df Ano param))
   \<and> set (map fst (groupby_mean df Ano param)) = (\<lambda>r. cell_of r Ano) ` set (rows df) - {Missing}
   \<and> length (groupby_mean df Ano param) = card ((\<lambda>r. cell_of r Ano) ` set (rows df) - {Missing})
   \<and> sorted (map (cell_key \<circ> fst) (groupby_mean df Ano param))
   \<and> ((\<forall>r\<in>set (rows df). cell_of r Ano = Missing \<or> (\<exists>y. cell_of r Ano = Number y)) \<longrightarrow>
        map fst (groupby_mean df Ano param) =
          map Number (sorted_list_of_set {y. Number y \<in> (\<lambda>r. cell_of r Ano) ` set (rows df)}))
   \<and> (\<forall>k\<in>set (map fst (groupby_mean df Ano param)).
        map_of (groupby_mean df Ano param) k =
          Some (let vs = numbers (map (\<lambda>r. cell_of r param) (filter (\<lambda>r. cell_of r Ano = k) (rows df)))
                in if vs = [] then Missing else Number (sum_list vs / real (length vs))))
   \<and> (Ano \<in> set (col_names df) \<and> param \<in> set (numeric_columns df) \<longrightarrow>
        bar_stage df (Some param) = Inr (Some (groupby_mean df Ano param)))
   \<and> groupby_mean three_years Ano ''pH'' = [(Number 2021, Number 5), (Number 2022, Number 10)]"
proof -
  have 1: "distinct (map fst (groupby_mean df Ano param))"
    by (simp add: fst_groupby_mean distinct_group_keys)
  have 2: "set (map fst (groupby_mean df Ano param)) = (\<lambda>r. cell_of r Ano) ` set (rows df) - {Missing}"
    by (simp only: fst_groupby_mean set_group_keys)
  have 3: "length (groupby_mean df Ano param) = card ((\<lambda>r. cell_of r Ano) ` set (rows df) - {Missing})"
    using length_group_keys [of df Ano] by (simp add: groupby_mean_def)
  have 4: "sorted (map (cell_key \<circ> fst) (groupby_mean df Ano param))"
    using sorted_group_keys [of df Ano] by (simp add: fst_groupby_mean flip: map_map)
  have 5: "(\<forall>r\<in>set (rows df). cell_of r Ano = Missing \<or> (\<exists>y. cell_of r Ano = Number y)) \<longrightarrow>
        map fst (groupby_mean df Ano param) =
          map Number (sorted_list_of_set {y. Number y \<in> (\<lambda>r. cell_of r Ano) ` set (rows df)})"
    using numeric_keys [of df Ano] by (simp only: fst_groupby_mean) blast
  have 6: "\<forall>k\<in>set (map fst (groupby_mean df Ano param)).
        map_of (groupby_mean df Ano param) k =
          Some (let vs = numbers (map (\<lambda>r. cell_of r param) (filter (\<lambda>r. cell_of r Ano = k) (rows df)))
                in if vs = [] then Missing else Number (sum_list vs / real (length vs)))"
    by (simp only: fst_groupby_mean) (simp add: groupby_mean_def map_of_tabulate mean_def group_rows_def Let_def)
  have 7: "Ano \<in> set (col_names df) \<and> param \<in> set (numeric_columns df) \<longrightarrow>
        bar_stage df (Some param) = Inr (Some (groupby_mean df Ano param))"
    by (simp add: bar_stage_def selectbox_member)
  show ?thesis using 1 2 3 4 5 6 7 sample_series by blast
qed

theorem aggregated_series_witness:
  "bar_stage three_years (Some ''pH'') = Inr (Some [(Number 2021, Number 5), (Number 2022, Number 10)])
   \<and> card ((\<lambda>r. cell_of r Ano) ` set (rows three_years) - {Missing}) = 2
   \<and> map Number (sorted_list_of_set {y. Number y \<in> (\<lambda>r. cell_of r Ano) ` set (rows three_years)})
       = [Number 2021, Number 2022]"
proof -
  have c: "Ano \<in> set (col_names three_years)" "''pH'' \<in> set (numeric_columns three_years)"
    by (simp_all add: sample_defs col_names_def numeric_columns_def)
  have n: "\<forall>r\<in>set (rows three_years). cell_of r Ano = Missing \<or> (\<exists>y. cell_of r Ano = Number y)"
    by (simp add: sample_defs cell_of_def)
  have k: "map fst (groupby_mean three_years Ano ''pH'') = [Number 2021, Number 2022]"
    by (simp add: fst_groupby_mean sample_keys)
  from aggregated_series [of three_years "''pH''"] c n k show ?thesis
    by (simp add: sample_series)
qed

section \<open>The Spearman coefficient\<close>

subsection \<open>Rounding to the nearest integer\<close>

lemma rne_interval: "of_int m - 1 / 2 < y \<Longrightarrow> y < of_int m + 1 / 2 \<Longrightarrow> rne y = m"
proof -
  assume a: "of_int m - 1 / 2 < y" and b: "y < of_int m + 1 / 2"
  show ?thesis
  proof (cases "of_int m \<le> y")
    case True
    then have f: "\<lfloor>y\<rfloor> = m" using b by (simp add: floor_eq_iff)
    then show ?thesis using b by (simp add: rne_def Let_def)
  next
    case False
    then have f: "\<lfloor>y\<rfloor> = m - 1" using a by (simp add: floor_eq_iff)
    then show ?thesis using a False by (simp add: rne_def Let_def)
  qed
qed


lemma rne_ge: "of_int n \<le> y \<Longrightarrow> n \<le> rne y"
proof -
  assume "of_int n \<le> y"
  then have "n \<le> \<lfloor>y\<rfloor>" by (simp add: le_floor_iff)
  then show ?thesis by (auto simp: rne_def Let_def)
qed

subsection \<open>Rounding to float64\<close>

lemma fl_zero [simp]: "fl 0 = 0"
  by (simp add: fl_def)

lemma fl_minus: "fl (- x) = - fl x"
  by (simp add: fl_def Let_def sgn_minus)

text \<open>The significand of a positive number, scaled by its exponent, lies between
  \<open>2 ^ 52\<close> and \<open>2 ^ 53\<close>.\<close>

lemma scaled_bounds:
  assumes "0 < x"
  defines "e \<equiv> \<lfloor>log 2 x\<rfloor> - 52"
  shows "2 ^ 52 \<le> x / 2 powr of_int e" and "x / 2 powr of_int e < 2 ^ 53"
proof -
  define k where "k = \<lfloor>log 2 x\<rfloor>"
  have b: "2 powr of_int k \<le> x" "x < 2 powr of_int (k + 1)"
    using floor_log_eq_powr_iff [of x 2 k] assms(1) by (simp_all add: k_def)
  have e: "(2::real) powr of_int e = 2 powr of_int k / 2 ^ 52"
    by (simp add: e_def k_def powr_diff)
  have p: "(0::real) < 2 powr of_int k" by simp
  show "2 ^ 52 \<le> x / 2 powr of_int e"
    using b(1) p unfolding e by (simp add: field_simps)
  have "(2::real) powr of_int (k + 1) = 2 * 2 powr of_int k"
    by (simp add: powr_add)
  then show "x / 2 powr of_int e < 2 ^ 53"
    using b(2) p unfolding e by (simp add: field_simps)
qed

lemma fl_pos_eq:
  assumes "0 < x"
  shows "fl x = of_int (rne (x / 2 powr of_int (\<lfloor>log 2 x\<rfloor> - 52))) * 2 powr of_int (\<lfloor>log 2 x\<rfloor> - 52)"
  using assms by (simp add: fl_def Let_def)

lemma fl_pos: "0 < x \<Longrightarrow> 0 < fl x"
proof -
  assume x: "0 < x"
  have "of_int (2 ^ 52) \<le> x / 2 powr of_int (\<lfloor>log 2 x\<rfloor> - 52)"
    using scaled_bounds(1) [OF x] by simp
  then have "2 ^ 52 \<le> rne (x / 2 powr of_int (\<lfloor>log 2 x\<rfloor> - 52))" by (rule rne_ge)
  then have "0 < rne (x / 2 powr of_int (\<lfloor>log 2 x\<rfloor> - 52))"
    by (rule less_le_trans [rotated]) simp
  then show ?thesis unfolding fl_pos_eq [OF x] by simp
qed

lemma fl_eq_0_iff: "fl x = 0 \<longleftrightarrow> x = 0"
proof (cases "x = 0")
  case True
  then show ?thesis by simp
next
  case False
  then consider "0 < x" | "0 < - x" by linarith
  then have "fl x \<noteq> 0"
  proof cases
    case 1
    then show ?thesis using fl_pos [of x] by simp
  next
    case 2
    then show ?thesis using fl_pos [of "- x"] by (simp add: fl_minus)
  qed
  with False show ?thesis by simp
qed



text \<open>Evaluating a rounding: the significand is found between its two neighbours.\<close>

lemma fl_scaled:
  assumes "2 ^ 52 \<le> x * 2 ^ n" and "x * 2 ^ n < 2 ^ 53"
  shows "fl x = of_int (rne (x * 2 ^ n)) / 2 ^ n"
proof -
  have x: "0 < x"
  proof (rule ccontr)
    assume "\<not> 0 < x"
    then have "x * 2 ^ n \<le> 0" by (simp add: mult_le_0_iff)
    moreover have "(0::real) < 2 ^ 52" by simp
    ultimately show False using assms(1) by linarith
  qed
  have "\<lfloor>log 2 x\<rfloor> = 52 - int n"
  proof -
    have p1: "(2::real) powr of_int (52 - int n) = 2 ^ 52 / 2 ^ n"
      by (simp add: powr_diff powr_realpow)
    have p2: "(2::real) powr of_int (52 - int n + 1) = 2 ^ 53 / 2 ^ n"
      by (simp add: powr_diff powr_realpow powr_add)
    have "2 ^ 52 / 2 ^ n \<le> x" using assms(1) by (simp add: divide_le_eq)
    then have b1: "2 powr of_int (52 - int n) \<le> x" by (simp only: p1)
    have "x < 2 ^ 53 / 2 ^ n" using assms(2) by (simp add: less_divide_eq)
    then have b2: "x < 2 powr of_int (52 - int n + 1)" by (simp only: p2)
    have "(1::real) < 2" by simp
    from floor_log_eq_powr_iff [OF x this, of "52 - int n"] b1 b2 show ?thesis by blast
  qed
  then have e: "\<lfloor>log 2 x\<rfloor> - 52 = - int n" by simp
  have "(2::real) powr of_int (- int n) = 1 / 2 ^ n"
    by (simp add: powr_minus_divide powr_realpow)
  then show ?thesis unfolding fl_pos_eq [OF x] e by simp
qed

lemma fl_near:
  assumes "2 ^ 52 \<le> x * 2 ^ n" and "x * 2 ^ n < 2 ^ 53"
    and "of_int m - 1 / 2 < x * 2 ^ n" and "x * 2 ^ n < of_int m + 1 / 2"
  shows "fl x = of_int m / 2 ^ n"
  using fl_scaled [OF assms(1,2)] rne_interval [OF assms(3,4)] by simp


subsection \<open>The roundings of the two examples\<close>
















subsection \<open>Deviations of rank vectors\<close>











subsection \<open>When the coefficient is a number, and its bounds\<close>





subsection \<open>Strictly increasing transforms\<close>





subsection \<open>Permutations of the rows\<close>










subsection \<open>Swapping the two columns\<close>








subsection \<open>The two examples\<close>









subsection \<open>The coefficient the stage shows\<close>







section \<open>The charts of a table without a year column\<close>

lemma fl_half: "fl (1 / 2) = 1 / 2"
proof -
  have "fl (1 / 2) = of_int 4503599627370496 / 2 ^ 53"
    by (rule fl_near) simp_all
  then show ?thesis by simp
qed

lemma fl_one: "fl 1 = 1"
proof -
  have "fl 1 = of_int 4503599627370496 / 2 ^ 52"
    by (rule fl_near) simp_all
  then show ?thesis by simp
qed

lemma falling_example: "spearmanr [7, 8, 9] [5, 6, 4] = Some (- 1 / 2)"
proof -
  have a: "rankdata [7, 8, 9] = [1, 2, 3]" by (simp add: rankdata_def rank_def)
  have b: "rankdata [5, 6, 4] = [2, 3, 1]" by (simp add: rankdata_def rank_def)
  have c: "cov [1, 2, 3] [2, 3, 1] = - (1 / 2)" "cov [1, 2, 3] [1, 2, 3] = 1"
    "cov [2, 3, 1] [2, 3, 1] = 1"
    by (simp_all add: cov_def dev_def avg_def fl_half fl_one fl_minus)
  have "corrcoef [1, 2, 3] [2, 3, 1] = Some (- (1 / 2))"
    by (simp add: corrcoef_def c fl_one fl_half fl_minus clip_def)
  then show ?thesis by (simp add: spearmanr_def a b is_constant_def)
qed

text \<open>
  Claim C9. On a table without a column named exactly \<open>Ano\<close> the bar chart is skipped
  and no aggregated series is produced, and the scatter stage runs as it always does:
  with fewer than two numeric columns it gives its warning, and otherwise it takes the
  two chosen axes, drops the rows in which one of them is missing, and shows the warning
  of insufficient data, the warning of identical axes, or the Spearman coefficient of
  the two columns over the paired rows.
\<close>

theorem no_year_column:
  assumes "Ano \<notin> set (col_names df)"
  shows "bar_stage df (parametro_sel w) = Inr None
     \<and> (length (numeric_columns df) < 2 \<longrightarrow>
          charts_stage df w r =
            r\<lparr>bar_series := None, messages := messages r @ [Warning_numeric_columns],
              scatter_plot := Some InsufficientNumericColumns\<rparr>)
     \<and> (2 \<le> length (numeric_columns df) \<longrightarrow>
          (\<exists>x y. selectbox (numeric_columns df) (x_axis_sel w) = Some x
             \<and> selectbox (numeric_columns df) (y_axis_sel w) = Some y
             \<and> x \<in> set (numeric_columns df) \<and> y \<in> set (numeric_columns df)
             \<and> charts_stage df w r =
                 (let df_corr = dropna df x y;
                      sc = (if length (rows df_corr) < 2 then InsufficientPairedRows
                            else if x \<noteq> y
                            then Coefficient df_corr
                                   (spearmanr (values_of df_corr x) (values_of df_corr y))
                            else IdenticalAxisSelection df_corr)
                  in r\<lparr>bar_series := None, messages := messages r @ warning_of sc,
                       scatter_plot := Some sc\<rparr>)))"
proof -
  have b: "bar_stage df (parametro_sel w) = Inr None"
    using assms by (simp add: bar_stage_def)
  have few: "charts_stage df w r =
            r\<lparr>bar_series := None, messages := messages r @ [Warning_numeric_columns],
              scatter_plot := Some InsufficientNumericColumns\<rparr>"
    if "length (numeric_columns df) < 2"
    using that b by (simp add: charts_stage_def scatter_stage_def)
  have many: "\<exists>x y. selectbox (numeric_columns df) (x_axis_sel w) = Some x
             \<and> selectbox (numeric_columns df) (y_axis_sel w) = Some y
             \<and> x \<in> set (numeric_columns df) \<and> y \<in> set (numeric_columns df)
             \<and> charts_stage df w r =
                 (let df_corr = dropna df x y;
                      sc = (if length (rows df_corr) < 2 then InsufficientPairedRows
                            else if x \<noteq> y
                            then Coefficient df_corr
                                   (spearmanr (values_of df_corr x) (values_of df_corr y))
                            else IdenticalAxisSelection df_corr)
                  in r\<lparr>bar_series := None, messages := messages r @ warning_of sc,
                       scatter_plot := Some sc\<rparr>)"
    if two: "2 \<le> length (numeric_columns df)"
  proof -
    have ne: "numeric_columns df \<noteq> []" using two by auto
    obtain x where x: "selectbox (numeric_columns df) (x_axis_sel w) = Some x"
      "x \<in> set (numeric_columns df)"
      using selectbox_nonempty [OF ne] by blast
    obtain y where y: "selectbox (numeric_columns df) (y_axis_sel w) = Some y"
      "y \<in> set (numeric_columns df)"
      using selectbox_nonempty [OF ne] by blast
    have "charts_stage df w r =
                 (let df_corr = dropna df x y;
                      sc = (if length (rows df_corr) < 2 then InsufficientPairedRows
                            else if x \<noteq> y
                            then Coefficient df_corr
                                   (spearmanr (values_of df_corr x) (values_of df_corr y))
                            else IdenticalAxisSelection df_corr)
                  in r\<lparr>bar_series := None, messages := messages r @ warning_of sc,
                       scatter_plot := Some sc\<rparr>)"
      using two b x(1) y(1)
      by (simp add: charts_stage_def scatter_stage_def correlation_stage_def Let_def)
    with x y show ?thesis by blast
  qed
  from b few many show ?thesis by blast
qed

theorem no_year_column_witness:
  "Ano \<notin> set (col_names no_year)
   \<and> evaluate (\<lambda>c. None) (Some (Inr no_year)) pick_axes =
       \<lparr>messages = [Success_loaded], preview = Some (rows no_year),
        station_map = Some \<lparr>latitude = Number (- 23), longitude = Number (- 46),
                            layer_data = no_year\<rparr>,
        bar_series = None,
        scatter_plot = Some (Coefficient no_year (Some (- 1 / 2)))\<rparr>"
proof -
  define r0 where "r0 = \<lparr>messages = [Success_loaded], preview = Some (rows no_year),
        station_map = Some \<lparr>latitude = Number (- 23), longitude = Number (- 46),
                            layer_data = no_year\<rparr>,
        bar_series = None, scatter_plot = None\<rparr>"
  have h: "Ano \<notin> set (col_names no_year)" by (simp add: sample_defs col_names_def)
  have e: "evaluate (\<lambda>c. None) (Some (Inr no_year)) pick_axes = charts_stage no_year pick_axes r0"
    by (simp add: evaluate_def dashboard_def map_stage_def column_mean_def series_mean_def
      filter_stage_def filter_period_def estacoes_def date_bounds_def date_method_def
      series_min_def series_max_def column_def col_names_def cell_of_def date_mask_def isin_def
      unique_def numbers_def stamps_def List.map_filter_def say_def blank_def
      date_input_def multiselect_def period_of_def assign_Data_def Let_def
      sample_defs r0_def)
  have n: "numeric_columns no_year = [''pH'', ''OD'']"
    by (simp add: numeric_columns_def sample_defs)
  have d: "dropna no_year ''pH'' ''OD'' = no_year"
    by (simp add: dropna_def sample_defs cell_of_def)
  have v: "values_of no_year ''pH'' = [7, 8, 9]" "values_of no_year ''OD'' = [5, 6, 4]"
    by (simp_all add: values_of_def sample_defs cell_of_def numbers_def List.map_filter_def)
  have l: "length (rows no_year) = 3" by (simp add: no_year_def)
  from no_year_column [OF h, of pick_axes r0] h e n d v l show ?thesis
    by (simp add: selectbox_def pick_axes_def r0_def Let_def falling_example)
qed

end
